theory Spec2Isabelle
  imports Complex_Main
begin

section \<open>The parallax star field (src/parallax.js)\<close>

text \<open>
  A shallow embedding of the helper namespace \<open>_\<close> and of the class \<open>Parallax\<close>.

  Conventions of the embedding.
  \<^item> JavaScript numbers are modelled by \<^typ>\<open>real\<close>: sums and the products with a
    random number are exact, and there is no NaN. Where the source tests for NaN
    (\<open>isNaN(previous)\<close>) the argument is a value of the datatype \<open>previous\<close>
    below, which keeps \<open>undefined\<close>, \<open>null\<close> and numbers apart.
  \<^item> The one product whose rounding decides how often a loop runs,
    \<open>density * this.area\<close> in \<open>calculate\<close>, is not computed in the model: the
    methods that reach it take the multiplication of doubles as a parameter
    \<open>fmul\<close>, and \<open>fmul d a\<close> is the double that the code obtains for \<open>d * a\<close>.
    What is proved holds for every \<open>fmul\<close>.
  \<^item> \<open>Math.random()\<close> reads a sequence \<open>g :: nat \<Rightarrow> real\<close> at a position
    that every call advances by one. Theorems about ranges assume that every
    number of the sequence lies in \<open>[0, 1)\<close>, which is what \<open>Math.random()\<close> promises.
  \<^item> The mutable object \<open>this\<close> is a record that every method takes and returns.
    The \<open>layers\<close> array is a list of layer records, each holding its own list
    of stars: the layer objects of the array are taken to be pairwise distinct
    objects, as the default layers and array literals are.
  \<^item> \<open>parseInt\<close> of a computed CSS length is an \<^typ>\<open>int\<close> (the NaN that an
    unparsable value yields is not represented).
  \<^item> The canvas and its 2D context are host objects; \<open>clear()\<close> and \<open>render()\<close>
    only draw on them and do not touch the fields modelled here.
\<close>

subsection \<open>The helper namespace: random, pick, isHex, get\<close>

type_synonym randoms = "nat \<Rightarrow> real"

definition Math_random :: "randoms \<Rightarrow> nat \<Rightarrow> real \<times> nat" where
  "Math_random g k = (g k, Suc k)"

text \<open>The optional argument \<open>previous\<close> of \<open>_.random\<close>: absent, \<open>null\<close> (the initial
  value in \<open>calculate\<close>) or a number.\<close>

datatype previous = Undefined | Null | Num real

text \<open>\<open>isNaN(undefined)\<close> is true; \<open>isNaN(null)\<close> is false, since \<open>null\<close> converts
  to 0, and so does \<open>value - null\<close>.\<close>

fun isNaN :: "previous \<Rightarrow> bool" where
  "isNaN Undefined = True"
| "isNaN Null = False"
| "isNaN (Num n) = False"

text \<open>\<open>!isNaN(previous) && Math.abs(value - previous) >= spread\<close>; the right operand
  is evaluated only when \<open>previous\<close> converts to a number.\<close>

fun far_enough :: "previous \<Rightarrow> real \<Rightarrow> real \<Rightarrow> bool" where
  "far_enough Undefined v spread = False"
| "far_enough Null v spread = (\<bar>v - 0\<bar> \<ge> spread)"
| "far_enough (Num n) v spread = (\<bar>v - n\<bar> \<ge> spread)"

text \<open>\<open>spread = spread ? spread : 25.0\<close>: an absent spread and a spread of 0 are
  both falsy.\<close>

definition spread_or_default :: "real option \<Rightarrow> real" where
  "spread_or_default spread =
     (case spread of None \<Rightarrow> 25 | Some s \<Rightarrow> if s = 0 then 25 else s)"

definition random :: "randoms \<Rightarrow> int \<Rightarrow> int \<Rightarrow> previous \<Rightarrow> real option \<Rightarrow> nat \<Rightarrow> real \<times> nat" where
  "random g mn mx prev spread k =
     (let sp = spread_or_default spread;
          (r, k1) = Math_random g k;
          v = of_int \<lfloor>r * of_int (mx - mn + 1)\<rfloor> + of_int mn
      in if \<not> isNaN prev \<and> far_enough prev v sp
         then (let (r2, k2) = Math_random g k1 in (v + r2 * 20, k2))
         else (v, k1))"

text \<open>\<open>array[v]\<close> for a number \<open>v\<close>: the element when \<open>v\<close> is an index of the array,
  \<open>undefined\<close> (\<open>None\<close>) otherwise.\<close>

definition index :: "'a list \<Rightarrow> real \<Rightarrow> 'a option" where
  "index array v =
     (if v = of_int \<lfloor>v\<rfloor> \<and> 0 \<le> v \<and> nat \<lfloor>v\<rfloor> < length array
      then Some (array ! nat \<lfloor>v\<rfloor>) else None)"

definition pick :: "randoms \<Rightarrow> 'a list \<Rightarrow> nat \<Rightarrow> 'a option \<times> nat" where
  "pick g array k =
     (let (v, k1) = random g 0 (int (length array) - 1) Undefined None k
      in (index array v, k1))"

text \<open>The regular expression \<open>/(^#[0-9A-F]{6}$)|(^#[0-9A-F]{3}$)/i\<close>.\<close>

definition hex_digit :: "char \<Rightarrow> bool" where
  "hex_digit c = (c \<in> set ''0123456789ABCDEFabcdef'')"

fun hex_pattern :: "string \<Rightarrow> bool" where
  "hex_pattern [] = False"
| "hex_pattern (c # cs) =
     (c = CHR ''#'' \<and> (length cs = 6 \<or> length cs = 3) \<and> list_all hex_digit cs)"

definition quote :: "string \<Rightarrow> string" where
  "quote s = [CHR 0x27] @ s @ [CHR 0x27]"

text \<open>\<open>_.isHex\<close> returns the verdict and what it wrote with \<open>console.error\<close>.\<close>

definition isHex :: "string \<Rightarrow> bool \<times> string list" where
  "isHex color =
     (if \<not> hex_pattern color
      then (False, [''The hex color '' @ quote color @ '' is not valid.''])
      else (True, []))"

text \<open>DOM elements are opaque identifiers. \<open>_.get\<close> returns the node list when
  the selector matches more than one element and \<open>found[0]\<close> otherwise, which is
  \<open>undefined\<close> when nothing matches.\<close>

datatype elem = Elem nat

datatype node = NoElement | Element elem | NodeList "elem list"

definition get :: "(string \<Rightarrow> elem list) \<Rightarrow> string \<Rightarrow> node" where
  "get querySelectorAll selector =
     (let found = querySelectorAll selector
      in if length found > 1 then NodeList found
         else (case found of [] \<Rightarrow> NoElement | e # _ \<Rightarrow> Element e))"

subsection \<open>Stars, layers and the instance\<close>

record vec =
  speed_x :: real
  speed_y :: real

record star =
  star_x :: real
  star_y :: real
  star_color :: "string option"
  star_speed :: vec

text \<open>A layer as the caller writes it: \<open>density\<close>, \<open>colors\<close> and \<open>stars\<close> may be
  absent (\<open>None\<close>); \<open>stars\<close> is absent until \<open>calculate\<close> has run.\<close>

record layer =
  layer_size :: real
  layer_speed :: vec
  layer_density :: "real option"
  layer_colors :: "string list option"
  layer_stars :: "star list option"

text \<open>The instance once the constructor has completed. \<open>defaultLayers\<close> keeps the
  default layers as the constructor wrote them; no method reads it again. (In
  the source its layer objects are the very objects that \<open>layers\<close> begins with
  when the defaults are used, so their \<open>stars\<close> are reached through \<open>layers\<close>.)\<close>

record parallax =
  container :: elem
  errors_colors :: "string list"
  defaultColors :: "string list"
  colors :: "string list"
  defaultLayers :: "layer list"
  layers :: "layer list"
  stars :: "star list"
  width :: int
  height :: int
  running :: bool
  restarted :: bool

subsection \<open>isInside and area\<close>

definition fadeDistance :: real where
  "fadeDistance = 10.0"

definition isInside :: "parallax \<Rightarrow> real \<Rightarrow> real \<Rightarrow> bool" where
  "isInside this x y =
     ((x > 0 \<and> x < of_int (width this) + fadeDistance) \<and>
      (y > 0 \<and> y < of_int (height this) + fadeDistance))"

definition area :: "parallax \<Rightarrow> int" where
  "area this = width this * height this"


subsection \<open>calculate\<close>

text \<open>One star of the inner loop of \<open>calculate\<close>. The fields of the object literal
  are evaluated in the order written, so the random numbers are drawn for \<open>x\<close>,
  \<open>y\<close>, the colour and the speed in turn.\<close>

definition new_star ::
  "randoms \<Rightarrow> parallax \<Rightarrow> string list \<Rightarrow> previous \<times> previous \<Rightarrow> nat \<Rightarrow> star \<times> nat" where
  "new_star g this palette prev k =
     (let (sx, k1) = random g (- 10) (width this) (fst prev) None k;
          (sy, k2) = random g (- 10) (height this) (snd prev) None k1;
          (c, k3) = pick g palette k2;
          (r, k4) = Math_random g k3
      in (\<lparr>star_x = sx, star_y = sy, star_color = c,
           star_speed = \<lparr>speed_x = 0, speed_y = r * 0.05\<rparr>\<rparr>, k4))"

text \<open>The inner loop \<open>for (let i = 0; i < density * this.area; i++)\<close>, with
  \<open>bound\<close> for the double \<open>density * this.area\<close>, the array \<open>stars\<close> built so
  far and the object \<open>previous\<close>, which outlives the loop.\<close>

function calculate_stars ::
  "randoms \<Rightarrow> parallax \<Rightarrow> string list \<Rightarrow> real \<Rightarrow> nat \<Rightarrow> star list \<Rightarrow> previous \<times> previous \<Rightarrow> nat
     \<Rightarrow> star list \<times> (previous \<times> previous) \<times> nat" where
  "calculate_stars g this palette bound i acc prev k =
     (if of_nat i < bound
      then (let (s, k1) = new_star g this palette prev k
            in calculate_stars g this palette bound (Suc i) (acc @ [s])
                 (Num (star_x s), Num (star_y s)) k1)
      else (acc, prev, k))"
  by pat_completeness auto
termination
  by (relation "measure (\<lambda>(g, this, palette, bound, i, acc, prev, k). nat \<lceil>bound\<rceil> - i)")
     (auto simp: zless_nat_eq_int_zless less_ceiling_iff intro!: diff_less_mono2)

text \<open>\<open>this.layers[o].density || 1/5000\<close>: an absent density and a density of 0 are
  both falsy.\<close>

definition density_or_default :: "layer \<Rightarrow> real" where
  "density_or_default l =
     (case layer_density l of None \<Rightarrow> 1 / 5000 | Some d \<Rightarrow> if d = 0 then 1 / 5000 else d)"

text \<open>\<open>this.layers[o].colors ? this.layers[o].colors : this.colors\<close>; an array, even
  an empty one, is truthy.\<close>

definition palette_of :: "parallax \<Rightarrow> layer \<Rightarrow> string list" where
  "palette_of this l = (case layer_colors l of None \<Rightarrow> colors this | Some lcs \<Rightarrow> lcs)"

text \<open>The outer loop over \<open>this.layers\<close>. The loops read \<open>this.width\<close>,
  \<open>this.height\<close>, \<open>this.area\<close> and \<open>this.colors\<close>, which assigning to
  \<open>this.layers[o].stars\<close> does not change, so they are read from the instance as
  it is when \<open>calculate\<close> starts.\<close>

fun calculate_layers ::
  "randoms \<Rightarrow> (real \<Rightarrow> real \<Rightarrow> real) \<Rightarrow> parallax \<Rightarrow> layer list \<Rightarrow> previous \<times> previous \<Rightarrow> nat
     \<Rightarrow> layer list \<times> (previous \<times> previous) \<times> nat" where
  "calculate_layers g fmul this [] prev k = ([], prev, k)"
| "calculate_layers g fmul this (l # ls) prev k =
     (let density = density_or_default l;
          (sts, prev1, k1) =
             calculate_stars g this (palette_of this l) (fmul density (of_int (area this))) 0 [] prev k;
          (ls', prev2, k2) = calculate_layers g fmul this ls prev1 k1
      in (l\<lparr>layer_stars := Some sts\<rparr> # ls', prev2, k2))"

definition calculate ::
  "randoms \<Rightarrow> (real \<Rightarrow> real \<Rightarrow> real) \<Rightarrow> parallax \<Rightarrow> nat \<Rightarrow> parallax \<times> nat" where
  "calculate g fmul this k =
     (let (ls, prev, k1) = calculate_layers g fmul this (layers this) (Null, Null) k
      in (this\<lparr>layers := ls\<rparr>, k1))"

text \<open>\<open>resize\<close> reads the computed width and height of the container from the host
  (\<open>css\<close>) and runs \<open>calculate\<close>.\<close>

definition resize ::
  "randoms \<Rightarrow> (real \<Rightarrow> real \<Rightarrow> real) \<Rightarrow> (elem \<Rightarrow> string \<Rightarrow> int) \<Rightarrow> parallax \<Rightarrow> nat
     \<Rightarrow> parallax \<times> nat" where
  "resize g fmul css this k =
     calculate g fmul
       (this\<lparr>width := css (container this) ''width'',
              height := css (container this) ''height''\<rparr>) k"

subsection \<open>update\<close>

text \<open>Reading \<open>.length\<close> of a \<open>stars\<close> property that is \<open>undefined\<close> raises.\<close>

datatype error = TypeError

definition update_star :: "randoms \<Rightarrow> parallax \<Rightarrow> layer \<Rightarrow> star \<Rightarrow> nat \<Rightarrow> star \<times> nat" where
  "update_star g this l s k =
     (if isInside this (star_x s) (star_y s)
      then (s\<lparr>star_x := star_x s + (speed_x (layer_speed l) + speed_x (star_speed s)),
               star_y := star_y s + (speed_y (layer_speed l) + speed_y (star_speed s))\<rparr>, k)
      else (let (v, k1) = random g 0 (width this) Undefined None k
            in (s\<lparr>star_x := v, star_y := 1\<rparr>, k1)))"

fun update_stars :: "randoms \<Rightarrow> parallax \<Rightarrow> layer \<Rightarrow> star list \<Rightarrow> nat \<Rightarrow> star list \<times> nat" where
  "update_stars g this l [] k = ([], k)"
| "update_stars g this l (s # ss) k =
     (let (s', k1) = update_star g this l s k;
          (ss', k2) = update_stars g this l ss k1
      in (s' # ss', k2))"

text \<open>The outer loop. Stars are updated in place, so when a later layer has no
  \<open>stars\<close> the layers before it keep their new positions and the exception
  leaves the rest untouched.\<close>

fun update_layers ::
  "randoms \<Rightarrow> parallax \<Rightarrow> layer list \<Rightarrow> nat \<Rightarrow> layer list \<times> nat \<times> error option" where
  "update_layers g this [] k = ([], k, None)"
| "update_layers g this (l # ls) k =
     (case layer_stars l of
        None \<Rightarrow> (l # ls, k, Some TypeError)
      | Some ss \<Rightarrow>
          (let (ss', k1) = update_stars g this l ss k;
               (ls', k2, e) = update_layers g this ls k1
           in (l\<lparr>layer_stars := Some ss'\<rparr> # ls', k2, e)))"

definition update :: "randoms \<Rightarrow> parallax \<Rightarrow> nat \<Rightarrow> parallax \<times> nat \<times> error option" where
  "update g this k =
     (let (ls, k1, e) = update_layers g this (layers this) k
      in (this\<lparr>layers := ls\<rparr>, k1, e))"


subsection \<open>start, pause and the frame loop\<close>

text \<open>\<open>running\<close> and \<open>restarted\<close> are \<open>undefined\<close> until first assigned; they are
  only ever tested for truthiness, so \<open>False\<close> stands for \<open>undefined\<close> too.

  \<open>loop\<close> is the closure of \<open>start\<close>: when the instance is running it asks the
  host for another call at the next animation frame, clears the canvas, runs
  \<open>update\<close> and renders. \<open>start\<close> calls it once itself.\<close>

definition loop :: "randoms \<Rightarrow> parallax \<Rightarrow> nat \<Rightarrow> parallax \<times> nat \<times> error option" where
  "loop g this k = (if running this then update g this k else (this, k, None))"

definition start ::
  "randoms \<Rightarrow> (real \<Rightarrow> real \<Rightarrow> real) \<Rightarrow> parallax \<Rightarrow> nat \<Rightarrow> parallax \<times> nat \<times> error option" where
  "start g fmul this k =
     (let this1 = this\<lparr>running := True\<rparr>;
          (this2, k1) =
             (if \<not> restarted this1
              then (let (t, k') = calculate g fmul this1 k in (t\<lparr>restarted := False\<rparr>, k'))
              else (this1, k))
      in loop g this2 k1)"

definition pause :: "parallax \<Rightarrow> parallax" where
  "pause this = this\<lparr>running := False, restarted := True\<rparr>"

subsection \<open>The constructor\<close>

text \<open>The argument \<open>colors\<close> is absent, a single token or an array of tokens.\<close>

datatype colors_arg = Token string | Tokens "string list"

text \<open>The loop \<open>for (let color in colors)\<close>, with \<open>this.errors.colors\<close> and the
  console output so far.\<close>

fun check_colors :: "string list \<Rightarrow> string list \<Rightarrow> string list \<Rightarrow> string list \<times> string list" where
  "check_colors [] errors out = (errors, out)"
| "check_colors (c # cs) errors out =
     (let (ok, msg) = isHex c
      in check_colors cs (if \<not> ok then errors @ [c] else errors) (out @ msg))"

text \<open>The object under construction when the body returns early: only
  \<open>container\<close>, \<open>errors\<close> and possibly \<open>defaultColors\<close> have been assigned.\<close>

record unfinished =
  unfinished_container :: node
  unfinished_errors_colors :: "string list"
  unfinished_defaultColors :: "string list option"

datatype this_object = Unfinished unfinished | Finished parallax

text \<open>What the body of the constructor returns: nothing, \<open>false\<close>, or (never here)
  an object.\<close>

datatype jsvalue = JSUndefined | JSFalse | JSObject this_object

text \<open>The body of the constructor: the console output, and either the exception
  raised or the object \<open>this\<close> with the returned value. \<open>_.style\<close> assigns to
  \<open>element.style[prop]\<close>, which raises when the container is a node list (it
  has no \<open>style\<close>).\<close>

definition Parallax_constructor ::
  "(string \<Rightarrow> elem list) \<Rightarrow> (elem \<Rightarrow> string \<Rightarrow> int) \<Rightarrow> string \<Rightarrow> colors_arg option
     \<Rightarrow> layer list option \<Rightarrow> bool \<Rightarrow> string list \<times> (error + this_object \<times> jsvalue)" where
  "Parallax_constructor doc css containerSelector colors_given layers_given mergeLayers =
     (let cont = get doc containerSelector
      in if cont = NoElement
         then ([''No container found with the selector '' @ quote containerSelector @ ''.''],
               Inr (Unfinished \<lparr>unfinished_container = cont, unfinished_errors_colors = [],
                                unfinished_defaultColors = None\<rparr>, JSFalse))
         else
          (let dcolors = [''#ffffff'', ''#6420e5'', ''#79e865'', ''#e81e6b''];
               cs = (case colors_given of None \<Rightarrow> dcolors
                     | Some (Tokens a) \<Rightarrow> a | Some (Token t) \<Rightarrow> [t]);
               (errors, out) = (case colors_given of None \<Rightarrow> ([], [])
                                | Some c \<Rightarrow> check_colors cs [] [])
           in if errors \<noteq> []
              then (out @ [''The following colors are incorrect :''] @ map (\<lambda>e. ''- '' @ e) errors,
                    Inr (Unfinished \<lparr>unfinished_container = cont,
                                     unfinished_errors_colors = errors,
                                     unfinished_defaultColors = Some dcolors\<rparr>, JSFalse))
              else
               (let dlayers =
                      [\<lparr>layer_size = 3, layer_speed = \<lparr>speed_x = 0, speed_y = 0.5\<rparr>,
                        layer_density = None, layer_colors = Some cs, layer_stars = None\<rparr>,
                       \<lparr>layer_size = 2, layer_speed = \<lparr>speed_x = 0, speed_y = 0.3\<rparr>,
                        layer_density = None, layer_colors = Some cs, layer_stars = None\<rparr>,
                       \<lparr>layer_size = 1, layer_speed = \<lparr>speed_x = 0, speed_y = 0.2\<rparr>,
                        layer_density = None, layer_colors = Some cs, layer_stars = None\<rparr>];
                    ls = (case layers_given of None \<Rightarrow> dlayers
                          | Some given \<Rightarrow> if mergeLayers then dlayers @ given else given)
                in case cont of
                     Element e \<Rightarrow>
                       (out, Inr (Finished
                          \<lparr>container = e, errors_colors = [], defaultColors = dcolors,
                           colors = cs, defaultLayers = dlayers, layers = ls, stars = [],
                           width = css e ''width'', height = css e ''height'',
                           running = False, restarted = False\<rparr>, JSUndefined))
                   | _ \<Rightarrow> (out, Inl TypeError))))"

text \<open>\<open>new Parallax(...)\<close>. \<open>Parallax\<close> is a class without a parent, so it can only
  be called with \<open>new\<close>, and the value of the \<open>new\<close> expression is the value
  returned by the body when that is an object and the object under construction
  otherwise: a returned primitive such as \<open>false\<close> is dropped.\<close>

definition construct :: "this_object \<times> jsvalue \<Rightarrow> jsvalue" where
  "construct r = (case snd r of JSObject ob \<Rightarrow> JSObject ob | _ \<Rightarrow> JSObject (fst r))"

definition new_Parallax ::
  "(string \<Rightarrow> elem list) \<Rightarrow> (elem \<Rightarrow> string \<Rightarrow> int) \<Rightarrow> string \<Rightarrow> colors_arg option
     \<Rightarrow> layer list option \<Rightarrow> bool \<Rightarrow> error + jsvalue" where
  "new_Parallax doc css containerSelector colors_given layers_given mergeLayers =
     (case snd (Parallax_constructor doc css containerSelector colors_given layers_given mergeLayers) of
        Inl e \<Rightarrow> Inl e
      | Inr r \<Rightarrow> Inr (construct r))"

subsection \<open>Sample values\<close>

text \<open>A layer written like the default ones, an instance of a given size with
  given layers, and a page on which only the selector \<open>#sky\<close> matches, one
  element of 300 by 150 pixels.\<close>

definition sample_layer :: "star list option \<Rightarrow> layer" where
  "sample_layer sts =
     \<lparr>layer_size = 3, layer_speed = \<lparr>speed_x = 0, speed_y = 0.5\<rparr>,
      layer_density = None, layer_colors = None, layer_stars = sts\<rparr>"

definition sample_field :: "int \<Rightarrow> int \<Rightarrow> layer list \<Rightarrow> parallax" where
  "sample_field w h ls =
     \<lparr>container = Elem 0, errors_colors = [],
      defaultColors = [''#ffffff'', ''#6420e5'', ''#79e865'', ''#e81e6b''],
      colors = [''#ffffff''], defaultLayers = [], layers = ls, stars = [],
      width = w, height = h, running = False, restarted = False\<rparr>"

definition sample_star :: "real \<Rightarrow> real \<Rightarrow> star" where
  "sample_star sx sy =
     \<lparr>star_x = sx, star_y = sy, star_color = Some ''#ffffff'',
      star_speed = \<lparr>speed_x = 0, speed_y = 0.01\<rparr>\<rparr>"

definition sample_page :: "string \<Rightarrow> elem list" where
  "sample_page selector = (if selector = ''#sky'' then [Elem 0] else [])"

definition sample_css :: "elem \<Rightarrow> string \<Rightarrow> int" where
  "sample_css e prop = (if prop = ''width'' then 300 else 150)"

text \<open>The instance that the constructor builds on the sample page from no colours
  and the given layers, prepended or not by the default ones.\<close>

definition sample_instance :: "layer list \<Rightarrow> parallax" where
  "sample_instance ls =
     \<lparr>container = Elem 0, errors_colors = [],
      defaultColors = [''#ffffff'', ''#6420e5'', ''#79e865'', ''#e81e6b''],
      colors = [''#ffffff'', ''#6420e5'', ''#79e865'', ''#e81e6b''],
      defaultLayers =
        [\<lparr>layer_size = 3, layer_speed = \<lparr>speed_x = 0, speed_y = 0.5\<rparr>, layer_density = None,
          layer_colors = Some [''#ffffff'', ''#6420e5'', ''#79e865'', ''#e81e6b''], layer_stars = None\<rparr>,
         \<lparr>layer_size = 2, layer_speed = \<lparr>speed_x = 0, speed_y = 0.3\<rparr>, layer_density = None,
          layer_colors = Some [''#ffffff'', ''#6420e5'', ''#79e865'', ''#e81e6b''], layer_stars = None\<rparr>,
         \<lparr>layer_size = 1, layer_speed = \<lparr>speed_x = 0, speed_y = 0.2\<rparr>, layer_density = None,
          layer_colors = Some [''#ffffff'', ''#6420e5'', ''#79e865'', ''#e81e6b''], layer_stars = None\<rparr>],
      layers = ls, stars = [], width = 300, height = 150, running = False, restarted = False\<rparr>"

text \<open>For the proofs about \<open>calculate\<close>: a coordinate \<open>c\<close> that is an integer of
  \<open>[-10, m]\<close>, with a jitter between 0 and 20 on top exactly when the integer is
  at least 25 away from \<open>prev\<close>; and a list of coordinates each of which is so
  with respect to the one before it.\<close>

definition drawn_then_jittered :: "int \<Rightarrow> previous \<Rightarrow> real \<Rightarrow> bool" where
  "drawn_then_jittered m prev c =
     (\<exists>v::int. - 10 \<le> v \<and> v \<le> m \<and>
        (if (case prev of Undefined \<Rightarrow> False
             | Null \<Rightarrow> 25 \<le> \<bar>real_of_int v\<bar>
             | Num p \<Rightarrow> 25 \<le> \<bar>real_of_int v - p\<bar>)
         then of_int v \<le> c \<and> c \<le> of_int v + 20
         else c = of_int v))"

fun spaced :: "int \<Rightarrow> previous \<Rightarrow> real list \<Rightarrow> bool" where
  "spaced m prev [] = True"
| "spaced m prev (c # cs) = (drawn_then_jittered m prev c \<and> spaced m (Num c) cs)"

text \<open>All the stars of a list of layers, in the order of the layers.\<close>

definition stars_of :: "layer list \<Rightarrow> star list" where
  "stars_of ls = concat (map (\<lambda>l. case layer_stars l of None \<Rightarrow> [] | Some ss \<Rightarrow> ss) ls)"

text \<open>In the statements below, one star before and after a call of \<open>update\<close>.\<close>

abbreviation star_step :: "parallax \<Rightarrow> layer \<Rightarrow> star \<Rightarrow> star \<Rightarrow> bool" where
  "star_step this l s s' \<equiv>
     (if isInside this (star_x s) (star_y s)
      then star_x s' = star_x s + (speed_x (layer_speed l) + speed_x (star_speed s)) \<and>
           star_y s' = star_y s + (speed_y (layer_speed l) + speed_y (star_speed s))
      else star_y s' = 1 \<and> 0 \<le> star_x s' \<and> star_x s' \<le> of_int (width this))"

section \<open>Auxiliary facts\<close>

declare calculate_stars.simps [simp del]

subsection \<open>The random helper\<close>

lemma floor_scaled_range:
  fixes r :: real and n :: int
  assumes "0 \<le> r" "r < 1" "1 \<le> n"
  shows "0 \<le> \<lfloor>r * of_int n\<rfloor> \<and> \<lfloor>r * of_int n\<rfloor> \<le> n - 1"
proof -
  have pos: "(0::real) < of_int n" using assms(3) by simp
  have "0 \<le> r * of_int n" using assms(1) pos by simp
  hence lo: "0 \<le> \<lfloor>r * of_int n\<rfloor>" by simp
  have "r * of_int n < 1 * of_int n" using assms(2) pos by (rule mult_strict_right_mono)
  hence "r * of_int n < of_int n" by simp
  hence "\<lfloor>r * of_int n\<rfloor> < n" by (simp add: floor_less_iff)
  with lo show ?thesis by simp
qed

lemma drawn_integer_range:
  fixes r :: real
  assumes "0 \<le> r" "r < 1" "mn \<le> mx"
  shows "mn \<le> \<lfloor>r * of_int (mx - mn + 1)\<rfloor> + mn \<and> \<lfloor>r * of_int (mx - mn + 1)\<rfloor> + mn \<le> mx"
  using floor_scaled_range [of r "mx - mn + 1"] assms by simp

lemma random_unfold:
  "random g mn mx prev spread k =
     (let v = of_int (\<lfloor>g k * of_int (mx - mn + 1)\<rfloor> + mn)
      in if \<not> isNaN prev \<and> far_enough prev v (spread_or_default spread)
         then (v + g (Suc k) * 20, Suc (Suc k)) else (v, Suc k))"
  by (simp add: random_def Math_random_def Let_def)

lemma random_undefined:
  assumes g: "\<forall>n. 0 \<le> g n \<and> g n < 1" and le: "mn \<le> mx"
  shows "of_int mn \<le> fst (random g mn mx Undefined spread k) \<and>
         fst (random g mn mx Undefined spread k) \<le> of_int mx"
proof -
  let ?v = "\<lfloor>g k * of_int (mx - mn + 1)\<rfloor> + mn"
  have v: "mn \<le> ?v \<and> ?v \<le> mx" using drawn_integer_range g le by simp
  hence rv: "(of_int mn :: real) \<le> of_int ?v \<and> (of_int ?v :: real) \<le> of_int mx"
    by (simp only: of_int_le_iff)
  show ?thesis using rv by (simp add: random_unfold Let_def)
qed

lemma random_can_exceed:
  assumes le: "mn \<le> mx"
  shows "\<exists>g p. (\<forall>n. 0 \<le> g n \<and> g n < 1) \<and> of_int mx < fst (random g mn mx (Num p) spread k)"
proof -
  define n where "n = mx - mn + 1"
  have n1: "1 \<le> n" using le by (simp add: n_def)
  hence npos: "(0::real) < of_int n" by simp
  define top :: real where "top = 1 - 1 / (2 * of_int n)"
  define g :: "nat \<Rightarrow> real" where "g = (\<lambda>i. if i = k then top else 1 / 2)"
  have "1 / (2 * real_of_int n) \<le> 1 / 2" using n1 by (simp add: field_simps)
  moreover have "0 < 1 / (2 * real_of_int n)" using npos by simp
  ultimately have top: "0 \<le> top \<and> top < 1" by (simp add: top_def)
  hence rng: "\<forall>i. 0 \<le> g i \<and> g i < 1" by (simp add: g_def)
  have "top * of_int n = of_int n - 1 / 2" using npos by (simp add: top_def field_simps)
  hence "\<lfloor>top * of_int n\<rfloor> = n - 1" by (simp add: floor_eq_iff)
  hence v: "\<lfloor>g k * of_int (mx - mn + 1)\<rfloor> + mn = mx" by (simp add: g_def n_def)
  define p where "p = of_int mx - spread_or_default spread"
  have far: "far_enough (Num p) (of_int mx) (spread_or_default spread)" by (simp add: p_def)
  have gs: "g (Suc k) = 1 / 2" by (simp add: g_def)
  have "fst (random g mn mx (Num p) spread k) = of_int mx + 10"
    by (simp only: random_unfold v Let_def far isNaN.simps gs) simp
  with rng show ?thesis by (intro exI [of _ g] exI [of _ p]) simp
qed

subsection \<open>The loops of calculate\<close>

lemma calculate_stars_length:
  "length (fst (calculate_stars g this palette bound i acc prev k)) = length acc + (nat \<lceil>bound\<rceil> - i)"
proof (induction g this palette bound i acc prev k rule: calculate_stars.induct)
  case (1 g this palette bound i acc prev k)
  show ?case
  proof (cases "of_nat i < bound")
    case True
    hence lt: "i < nat \<lceil>bound\<rceil>" by (simp add: zless_nat_eq_int_zless less_ceiling_iff)
    obtain s k1 where ns: "new_star g this palette prev k = (s, k1)"
      by (cases "new_star g this palette prev k")
    have "length (fst (calculate_stars g this palette bound (Suc i) (acc @ [s])
                         (Num (star_x s), Num (star_y s)) k1))
            = length (acc @ [s]) + (nat \<lceil>bound\<rceil> - Suc i)"
      using "1.IH" [OF True ns [symmetric] refl] .
    thus ?thesis using True lt ns by (subst calculate_stars.simps) simp
  next
    case False
    hence "nat \<lceil>bound\<rceil> \<le> i"
      by (simp add: zless_nat_eq_int_zless less_ceiling_iff not_less [symmetric])
    thus ?thesis using False by (subst calculate_stars.simps) simp
  qed
qed

text \<open>The loops read only the width, the height and the colours of the instance.\<close>

lemma new_star_reads:
  "width that = width this \<Longrightarrow> height that = height this \<Longrightarrow>
     new_star g that palette prev k = new_star g this palette prev k"
  by (simp add: new_star_def)

lemma calculate_stars_reads:
  "width that = width this \<Longrightarrow> height that = height this \<Longrightarrow>
     calculate_stars g that palette bound i acc prev k =
     calculate_stars g this palette bound i acc prev k"
proof (induction g this palette bound i acc prev k rule: calculate_stars.induct)
  case (1 g this palette bound i acc prev k)
  have ns: "new_star g that palette prev k = new_star g this palette prev k"
    using "1.prems" by (rule new_star_reads)
  show ?case
  proof (cases "of_nat i < bound")
    case True
    obtain s k1 where st: "new_star g this palette prev k = (s, k1)"
      by (cases "new_star g this palette prev k")
    have "calculate_stars g that palette bound i acc prev k =
          calculate_stars g that palette bound (Suc i) (acc @ [s]) (Num (star_x s), Num (star_y s)) k1"
      using True by (subst calculate_stars.simps) (simp add: ns st)
    also have "\<dots> =
          calculate_stars g this palette bound (Suc i) (acc @ [s]) (Num (star_x s), Num (star_y s)) k1"
      using "1.IH" [OF True st [symmetric] refl "1.prems"] .
    also have "\<dots> = calculate_stars g this palette bound i acc prev k"
      using True by (subst (2) calculate_stars.simps) (simp add: st)
    finally show ?thesis .
  next
    case False
    have "calculate_stars g that palette bound i acc prev k = (acc, prev, k)"
      using False by (subst calculate_stars.simps) simp
    moreover have "calculate_stars g this palette bound i acc prev k = (acc, prev, k)"
      using False by (subst calculate_stars.simps) simp
    ultimately show ?thesis by simp
  qed
qed

lemma calculate_layers_count:
  "list_all2 (\<lambda>l l'. \<exists>ss. l' = l\<lparr>layer_stars := Some ss\<rparr> \<and>
                 length ss = nat \<lceil>fmul (density_or_default l) (of_int (area this))\<rceil>)
     ls (fst (calculate_layers g fmul this ls prev k))"
proof (induction ls arbitrary: prev k)
  case Nil
  show ?case by simp
next
  case (Cons l ls)
  let ?bound = "fmul (density_or_default l) (of_int (area this))"
  obtain sts prev1 k1
    where st: "calculate_stars g this (palette_of this l) ?bound 0 [] prev k = (sts, prev1, k1)"
    by (cases "calculate_stars g this (palette_of this l) ?bound 0 [] prev k") auto
  have len: "length sts = nat \<lceil>?bound\<rceil>"
    using calculate_stars_length [of g this "palette_of this l" ?bound 0 "[]" prev k]
    unfolding st by simp
  obtain ls' prev2 k2 where rest: "calculate_layers g fmul this ls prev1 k1 = (ls', prev2, k2)"
    by (cases "calculate_layers g fmul this ls prev1 k1") auto
  have "list_all2 (\<lambda>l l'. \<exists>ss. l' = l\<lparr>layer_stars := Some ss\<rparr> \<and>
                 length ss = nat \<lceil>fmul (density_or_default l) (of_int (area this))\<rceil>) ls ls'"
    using Cons.IH [of prev1 k1] by (simp add: rest)
  thus ?case using len by (auto simp add: st rest)
qed

lemma calculate_layers_forgets:
  assumes w: "width that = width this" and h: "height that = height this"
    and c: "colors that = colors this"
  shows "calculate_layers g fmul that (map (\<lambda>l. l\<lparr>layer_stars := old l\<rparr>) ls) prev k =
         calculate_layers g fmul this ls prev k"
proof (induction ls arbitrary: prev k)
  case Nil
  show ?case by simp
next
  case (Cons l ls)
  have r: "calculate_stars g that palette bound i acc prev k =
           calculate_stars g this palette bound i acc prev k" for palette bound i acc prev k
    using w h by (rule calculate_stars_reads)
  have p: "palette_of that (l\<lparr>layer_stars := old l\<rparr>) = palette_of this l"
    by (cases "layer_colors l") (simp_all add: palette_of_def c)
  have d: "density_or_default (l\<lparr>layer_stars := old l\<rparr>) = density_or_default l"
    by (simp add: density_or_default_def)
  have a: "area that = area this"
    by (simp add: area_def w h)
  show ?case
    by (simp add: Cons.IH r p d a case_prod_beta)
qed

subsection \<open>The coordinates that calculate stores\<close>

lemma random_drawn:
  assumes g: "\<forall>n. 0 \<le> g n \<and> g n < 1" and m: "0 \<le> m"
  shows "drawn_then_jittered m prev (fst (random g (- 10) m prev None k))"
proof -
  let ?v = "\<lfloor>g k * of_int (m - (- 10) + 1)\<rfloor> + (- 10)"
  have v: "- 10 \<le> ?v \<and> ?v \<le> m"
    using drawn_integer_range [of "g k" "- 10" m] g m by simp
  have j: "0 \<le> g (Suc k) * 20 \<and> g (Suc k) * 20 \<le> 20" using g by (simp add: less_imp_le)
  have "if (case prev of Undefined \<Rightarrow> False
            | Null \<Rightarrow> 25 \<le> \<bar>real_of_int ?v\<bar>
            | Num p \<Rightarrow> 25 \<le> \<bar>real_of_int ?v - p\<bar>)
        then of_int ?v \<le> fst (random g (- 10) m prev None k) \<and>
             fst (random g (- 10) m prev None k) \<le> of_int ?v + 20
        else fst (random g (- 10) m prev None k) = of_int ?v"
    using j by (cases prev) (simp_all add: random_unfold Let_def spread_or_default_def)
  with v show ?thesis unfolding drawn_then_jittered_def by blast
qed

lemma spaced_append:
  "spaced m prev (cs @ ds) =
     (spaced m prev cs \<and> spaced m (if cs = [] then prev else Num (last cs)) ds)"
  by (induction cs arbitrary: prev) auto

lemma spaced_nth:
  "spaced m prev cs \<Longrightarrow> i < length cs \<Longrightarrow>
     drawn_then_jittered m (if i = 0 then prev else Num (cs ! (i - 1))) (cs ! i)"
proof (induction cs arbitrary: prev i)
  case Nil
  thus ?case by simp
next
  case (Cons c cs)
  show ?case
  proof (cases i)
    case 0
    thus ?thesis using Cons.prems by simp
  next
    case (Suc j)
    hence "drawn_then_jittered m (if j = 0 then Num c else Num (cs ! (j - 1))) (cs ! j)"
      using Cons.IH [of "Num c" j] Cons.prems by simp
    thus ?thesis using Suc by (cases j) simp_all
  qed
qed

lemma new_star_drawn:
  assumes g: "\<forall>n. 0 \<le> g n \<and> g n < 1" and w: "0 \<le> width this" and h: "0 \<le> height this"
  shows "drawn_then_jittered (width this) (fst prev) (star_x (fst (new_star g this palette prev k))) \<and>
         drawn_then_jittered (height this) (snd prev) (star_y (fst (new_star g this palette prev k)))"
  using random_drawn [OF g w, of "fst prev" k]
        random_drawn [OF g h, of "snd prev" "snd (random g (- 10) (width this) (fst prev) None k)"]
  by (simp add: new_star_def case_prod_beta)

lemma calculate_stars_spaced:
  assumes g: "\<forall>n. 0 \<le> g n \<and> g n < 1" and w: "0 \<le> width this" and h: "0 \<le> height this"
  shows "\<exists>new. fst (calculate_stars g this palette bound i acc prev k) = acc @ new \<and>
           spaced (width this) (fst prev) (map star_x new) \<and>
           spaced (height this) (snd prev) (map star_y new) \<and>
           fst (snd (calculate_stars g this palette bound i acc prev k)) =
             (if new = [] then prev else (Num (star_x (last new)), Num (star_y (last new))))"
  using g w h
proof (induction g this palette bound i acc prev k rule: calculate_stars.induct)
  case (1 g this palette bound i acc prev k)
  show ?case
  proof (cases "of_nat i < bound")
    case True
    obtain s k1 where ns: "new_star g this palette prev k = (s, k1)"
      by (cases "new_star g this palette prev k")
    have d: "drawn_then_jittered (width this) (fst prev) (star_x s) \<and>
             drawn_then_jittered (height this) (snd prev) (star_y s)"
      using new_star_drawn [OF "1.prems", of prev palette k] by (simp add: ns)
    let ?r = "calculate_stars g this palette bound (Suc i) (acc @ [s])
                (Num (star_x s), Num (star_y s)) k1"
    obtain new where n: "fst ?r = (acc @ [s]) @ new"
      "spaced (width this) (Num (star_x s)) (map star_x new)"
      "spaced (height this) (Num (star_y s)) (map star_y new)"
      "fst (snd ?r) = (if new = [] then (Num (star_x s), Num (star_y s))
                       else (Num (star_x (last new)), Num (star_y (last new))))"
      using "1.IH" [OF True ns [symmetric] refl "1.prems"] by auto
    have eq: "calculate_stars g this palette bound i acc prev k = ?r"
      using True by (subst calculate_stars.simps) (simp add: ns)
    have "fst ?r = acc @ (s # new)" using n(1) by simp
    moreover have "spaced (width this) (fst prev) (map star_x (s # new))" using d n(2) by simp
    moreover have "spaced (height this) (snd prev) (map star_y (s # new))" using d n(3) by simp
    moreover have "fst (snd ?r) =
        (if s # new = [] then prev
         else (Num (star_x (last (s # new))), Num (star_y (last (s # new)))))"
      using n(4) by simp
    ultimately show ?thesis unfolding eq by blast
  next
    case False
    hence "calculate_stars g this palette bound i acc prev k = (acc, prev, k)"
      by (subst calculate_stars.simps) simp
    thus ?thesis by (intro exI [of _ "[]"]) simp
  qed
qed

lemma calculate_layers_spaced:
  assumes g: "\<forall>n. 0 \<le> g n \<and> g n < 1" and w: "0 \<le> width this" and h: "0 \<le> height this"
  shows "spaced (width this) (fst prev)
           (map star_x (stars_of (fst (calculate_layers g fmul this ls prev k)))) \<and>
         spaced (height this) (snd prev)
           (map star_y (stars_of (fst (calculate_layers g fmul this ls prev k)))) \<and>
         fst (snd (calculate_layers g fmul this ls prev k)) =
           (if stars_of (fst (calculate_layers g fmul this ls prev k)) = [] then prev
            else (Num (star_x (last (stars_of (fst (calculate_layers g fmul this ls prev k))))),
                  Num (star_y (last (stars_of (fst (calculate_layers g fmul this ls prev k)))))))"
proof (induction ls arbitrary: prev k)
  case Nil
  show ?case by (simp add: stars_of_def)
next
  case (Cons l ls)
  let ?bound = "fmul (density_or_default l) (of_int (area this))"
  obtain sts prev1 k1
    where st: "calculate_stars g this (palette_of this l) ?bound 0 [] prev k = (sts, prev1, k1)"
    by (cases "calculate_stars g this (palette_of this l) ?bound 0 [] prev k") auto
  have a: "spaced (width this) (fst prev) (map star_x sts) \<and>
           spaced (height this) (snd prev) (map star_y sts) \<and>
           prev1 = (if sts = [] then prev else (Num (star_x (last sts)), Num (star_y (last sts))))"
    using calculate_stars_spaced [OF g w h, of "palette_of this l" ?bound 0 "[]" prev k]
    unfolding st by auto
  obtain ls' prev2 k2 where rest: "calculate_layers g fmul this ls prev1 k1 = (ls', prev2, k2)"
    by (cases "calculate_layers g fmul this ls prev1 k1") auto
  have b: "spaced (width this) (fst prev1) (map star_x (stars_of ls')) \<and>
           spaced (height this) (snd prev1) (map star_y (stars_of ls')) \<and>
           prev2 = (if stars_of ls' = [] then prev1
                    else (Num (star_x (last (stars_of ls'))), Num (star_y (last (stars_of ls')))))"
    using Cons.IH [of prev1 k1, unfolded rest fst_conv snd_conv] .
  have res: "calculate_layers g fmul this (l # ls) prev k =
               (l\<lparr>layer_stars := Some sts\<rparr> # ls', prev2, k2)"
    by (simp add: st rest)
  have so: "stars_of (l\<lparr>layer_stars := Some sts\<rparr> # ls') = sts @ stars_of ls'"
    by (simp add: stars_of_def)
  have x: "spaced (width this) (fst prev) (map star_x (sts @ stars_of ls'))"
    using a b by (cases "sts = []") (simp_all add: spaced_append last_map)
  have y: "spaced (height this) (snd prev) (map star_y (sts @ stars_of ls'))"
    using a b by (cases "sts = []") (simp_all add: spaced_append last_map)
  have z: "prev2 = (if sts @ stars_of ls' = [] then prev
                    else (Num (star_x (last (sts @ stars_of ls'))),
                          Num (star_y (last (sts @ stars_of ls')))))"
    using a b by (cases "sts = []"; cases "stars_of ls' = []") simp_all
  show ?case unfolding res fst_conv snd_conv so using x y z by simp
qed

lemma calculate_flags:
  "restarted (fst (calculate g fmul this k)) = restarted this \<and>
   running (fst (calculate g fmul this k)) = running this"
  by (simp add: calculate_def case_prod_beta)

subsection \<open>The loops of update\<close>

lemma update_star_frame:
  "star_color (fst (update_star g this l s k)) = star_color s \<and>
   star_speed (fst (update_star g this l s k)) = star_speed s"
  by (simp add: update_star_def split: prod.split)

lemma update_stars_frame:
  "list_all2 (\<lambda>s s'. star_color s' = star_color s \<and> star_speed s' = star_speed s)
     ss (fst (update_stars g this l ss k))"
proof (induction ss arbitrary: k)
  case Nil
  show ?case by simp
next
  case (Cons s ss)
  obtain s' k1 where a: "update_star g this l s k = (s', k1)"
    by (cases "update_star g this l s k")
  obtain ss' k2 where b: "update_stars g this l ss k1 = (ss', k2)"
    by (cases "update_stars g this l ss k1")
  have "star_color s' = star_color s \<and> star_speed s' = star_speed s"
    using update_star_frame [of g this l s k] by (simp add: a)
  moreover have "list_all2 (\<lambda>s s'. star_color s' = star_color s \<and> star_speed s' = star_speed s) ss ss'"
    using Cons.IH [of k1] by (simp add: b)
  ultimately show ?case by (simp add: a b)
qed

lemma update_layers_frame:
  "list_all2 (\<lambda>l l'. layer_size l' = layer_size l \<and> layer_speed l' = layer_speed l \<and>
                layer_density l' = layer_density l \<and> layer_colors l' = layer_colors l \<and>
                rel_option (list_all2 (\<lambda>s s'. star_color s' = star_color s \<and> star_speed s' = star_speed s))
                  (layer_stars l) (layer_stars l'))
     ls (fst (update_layers g this ls k))"
proof (induction ls arbitrary: k)
  case Nil
  show ?case by simp
next
  case (Cons l ls)
  have same: "list_all2 (\<lambda>l l'. layer_size l' = layer_size l \<and> layer_speed l' = layer_speed l \<and>
                layer_density l' = layer_density l \<and> layer_colors l' = layer_colors l \<and>
                rel_option (list_all2 (\<lambda>s s'. star_color s' = star_color s \<and> star_speed s' = star_speed s))
                  (layer_stars l) (layer_stars l')) ls ls" for ls
    by (rule list_all2_refl) (simp add: option.rel_refl list_all2_refl)
  show ?case
  proof (cases "layer_stars l")
    case None
    thus ?thesis using same [of "l # ls"] by simp
  next
    case (Some ss)
    obtain ss' k1 where a: "update_stars g this l ss k = (ss', k1)"
      by (cases "update_stars g this l ss k")
    obtain ls' k2 e where b: "update_layers g this ls k1 = (ls', k2, e)"
      by (cases "update_layers g this ls k1") auto
    have "list_all2 (\<lambda>s s'. star_color s' = star_color s \<and> star_speed s' = star_speed s) ss ss'"
      using update_stars_frame [of ss g this l k] by (simp add: a)
    moreover have "list_all2 (\<lambda>l l'. layer_size l' = layer_size l \<and> layer_speed l' = layer_speed l \<and>
                layer_density l' = layer_density l \<and> layer_colors l' = layer_colors l \<and>
                rel_option (list_all2 (\<lambda>s s'. star_color s' = star_color s \<and> star_speed s' = star_speed s))
                  (layer_stars l) (layer_stars l')) ls ls'"
      using Cons.IH [of k1] by (simp add: b)
    ultimately show ?thesis by (simp add: Some a b)
  qed
qed

lemma update_star_step:
  assumes g: "\<forall>n. 0 \<le> g n \<and> g n < 1" and w: "0 \<le> width this"
  shows "star_step this l s (fst (update_star g this l s k))"
proof (cases "isInside this (star_x s) (star_y s)")
  case True
  thus ?thesis by (simp add: update_star_def)
next
  case False
  have "of_int 0 \<le> fst (random g 0 (width this) Undefined None k) \<and>
        fst (random g 0 (width this) Undefined None k) \<le> of_int (width this)"
    by (rule random_undefined [OF g w])
  thus ?thesis using False by (simp add: update_star_def case_prod_beta)
qed

lemma update_stars_step:
  assumes g: "\<forall>n. 0 \<le> g n \<and> g n < 1" and w: "0 \<le> width this"
  shows "list_all2 (star_step this l) ss (fst (update_stars g this l ss k))"
proof (induction ss arbitrary: k)
  case Nil
  show ?case by simp
next
  case (Cons s ss)
  obtain s' k1 where a: "update_star g this l s k = (s', k1)"
    by (cases "update_star g this l s k")
  obtain ss' k2 where b: "update_stars g this l ss k1 = (ss', k2)"
    by (cases "update_stars g this l ss k1")
  have "star_step this l s s'" using update_star_step [OF g w, where l = l and s = s and k = k] unfolding a fst_conv .
  moreover have "list_all2 (star_step this l) ss ss'" using Cons.IH [of k1] unfolding b fst_conv .
  ultimately show ?case by (simp add: a b)
qed

lemma update_layers_step:
  assumes g: "\<forall>n. 0 \<le> g n \<and> g n < 1" and w: "0 \<le> width this"
  shows "list_all (\<lambda>l. layer_stars l \<noteq> None) ls \<Longrightarrow>
         snd (snd (update_layers g this ls k)) = None \<and>
         list_all2 (\<lambda>l l'. \<exists>ss ss'. layer_stars l = Some ss \<and> layer_stars l' = Some ss' \<and>
                      list_all2 (star_step this l) ss ss')
           ls (fst (update_layers g this ls k))"
proof (induction ls arbitrary: k)
  case Nil
  show ?case by simp
next
  case (Cons l ls)
  from Cons.prems obtain ss where st: "layer_stars l = Some ss" by auto
  from Cons.prems have rest: "list_all (\<lambda>l. layer_stars l \<noteq> None) ls" by simp
  obtain ss' k1 where a: "update_stars g this l ss k = (ss', k1)"
    by (cases "update_stars g this l ss k")
  obtain ls' k2 e where b: "update_layers g this ls k1 = (ls', k2, e)"
    by (cases "update_layers g this ls k1") auto
  have "list_all2 (star_step this l) ss ss'"
    using update_stars_step [OF g w, where l = l and ss = ss and k = k] unfolding a fst_conv .
  moreover have "e = None \<and>
      list_all2 (\<lambda>l l'. \<exists>ss ss'. layer_stars l = Some ss \<and> layer_stars l' = Some ss' \<and>
                   list_all2 (star_step this l) ss ss') ls ls'"
    using Cons.IH [OF rest, of k1] unfolding b fst_conv snd_conv .
  ultimately show ?case by (simp add: st a b)
qed

lemma update_flags:
  "restarted (fst (update g this k)) = restarted this \<and>
   running (fst (update g this k)) = running this"
  by (simp add: update_def case_prod_beta)

subsection \<open>The colour check of the constructor\<close>

lemma check_colors_filter:
  "check_colors cs errors out =
     (errors @ filter (\<lambda>c. \<not> hex_pattern c) cs,
      out @ map (\<lambda>c. ''The hex color '' @ quote c @ '' is not valid.'')
              (filter (\<lambda>c. \<not> hex_pattern c) cs))"
  by (induction cs arbitrary: errors out) (simp_all add: isHex_def)

section \<open>Properties\<close>

subsection \<open>isInside\<close>

text \<open>
  C4. \<open>isInside(x, y)\<close> is true exactly when \<open>0 < x < width + 10\<close> and
  \<open>0 < y < height + 10\<close>; it is false on each of the four boundary equalities
  \<open>x = 0\<close>, \<open>x = width + 10\<close>, \<open>y = 0\<close>, \<open>y = height + 10\<close>.
\<close>

theorem isInside_open_rectangle:
  "isInside this x y =
     (0 < x \<and> x < of_int (width this) + 10 \<and> 0 < y \<and> y < of_int (height this) + 10)
   \<and> \<not> isInside this 0 y
   \<and> \<not> isInside this (of_int (width this) + 10) y
   \<and> \<not> isInside this x 0
   \<and> \<not> isInside this x (of_int (height this) + 10)"
  by (simp add: isInside_def fadeDistance_def)

subsection \<open>calculate\<close>

text \<open>
  C1 (as amended). For every layer, \<open>calculate()\<close> stores exactly \<open>ceiling p\<close>
  stars in that layer (none when \<open>p\<close> is not positive), where \<open>p\<close> is the
  double that the code computes for \<open>density * (width * height)\<close>, and the
  density is the layer's own when it gives one that is not 0 and 1/5000 when
  it gives none or gives 0. The layer is otherwise unchanged, and the new array
  replaces the previous one wholesale: whatever \<open>stars\<close> held before has no
  influence on the result.
\<close>

theorem calculate_star_count:
  "list_all2
     (\<lambda>l l'. \<exists>ss. l' = l\<lparr>layer_stars := Some ss\<rparr> \<and>
                length ss =
                  nat \<lceil>fmul (case layer_density l of None \<Rightarrow> 1 / 5000
                              | Some d \<Rightarrow> if d = 0 then 1 / 5000 else d)
                            (of_int (width this * height this))\<rceil>)
     (layers this) (layers (fst (calculate g fmul this k)))
   \<and> calculate g fmul (this\<lparr>layers := map (\<lambda>l. l\<lparr>layer_stars := old l\<rparr>) (layers this)\<rparr>) k
       = calculate g fmul this k"
proof -
  have "list_all2
     (\<lambda>l l'. \<exists>ss. l' = l\<lparr>layer_stars := Some ss\<rparr> \<and>
                length ss =
                  nat \<lceil>fmul (case layer_density l of None \<Rightarrow> 1 / 5000
                              | Some d \<Rightarrow> if d = 0 then 1 / 5000 else d)
                            (of_int (width this * height this))\<rceil>)
     (layers this) (layers (fst (calculate g fmul this k)))"
    using calculate_layers_count [of fmul this "layers this" g "(Null, Null)" k]
    by (simp add: calculate_def case_prod_beta area_def density_or_default_def del: of_int_mult)
  moreover have "calculate g fmul (this\<lparr>layers := map (\<lambda>l. l\<lparr>layer_stars := old l\<rparr>) (layers this)\<rparr>) k
       = calculate g fmul this k"
    by (simp add: calculate_def
          calculate_layers_forgets [where this = this and ls = "layers this" and old = old])
  ultimately show ?thesis by simp
qed

text \<open>
  On a canvas of 100 by 75, where the products below are exact in doubles too:
  a layer with density 1/1024 gets \<open>ceiling 7.32421875 = 8\<close> stars, a layer with
  density 0 and a layer with no density get \<open>ceiling 1.5 = 2\<close> stars each.
\<close>

theorem calculate_star_count_witness:
  "map (\<lambda>l. map_option length (layer_stars l))
     (layers (fst (calculate (\<lambda>n. 1 / 2) (\<lambda>d a. d * a)
        (sample_field 100 75
           [(sample_layer None)\<lparr>layer_density := Some (1 / 1024)\<rparr>,
            (sample_layer None)\<lparr>layer_density := Some 0\<rparr>,
            sample_layer None]) 0)))
   = [Some 8, Some 2, Some 2]"
  using conjunct1 [OF calculate_star_count
          [of "\<lambda>d a. d * a"
              "sample_field 100 75
                 [(sample_layer None)\<lparr>layer_density := Some (1 / 1024)\<rparr>,
                  (sample_layer None)\<lparr>layer_density := Some 0\<rparr>,
                  sample_layer None]"
              "\<lambda>n. 1 / 2" 0]]
  by (auto simp: list_all2_Cons1 sample_field_def sample_layer_def)

text \<open>
  The count \<open>floor (density * width * height)\<close> fails: on a canvas of 100 by 75
  the default density gives 1.5 (in doubles as well), the loop \<open>i < 1.5\<close> runs
  for \<open>i = 0\<close> and \<open>i = 1\<close> and stores two stars, and the floor is 1.
\<close>

theorem calculate_floor_count_counterexample:
  "map_option length
     (layer_stars (hd (layers (fst (calculate (\<lambda>n. 1 / 2) (\<lambda>d a. d * a)
        (sample_field 100 75 [sample_layer None]) 0)))))
   \<noteq> Some (nat \<lfloor>(1 / 5000 :: real) * of_int (100 * 75)\<rfloor>)"
  by (simp add: calculate_def sample_field_def sample_layer_def density_or_default_def
      palette_of_def area_def calculate_stars.simps new_star_def random_def pick_def index_def
      Math_random_def spread_or_default_def Let_def)

text \<open>
  C5. With \<open>width \<ge> 0\<close>, \<open>height \<ge> 0\<close> and random numbers in \<open>[0, 1)\<close>, every star
  that \<open>calculate()\<close> stores is generated with an integer \<open>x\<close> of \<open>[-10, width]\<close>
  and an integer \<open>y\<close> of \<open>[-10, height]\<close>. What is stored is that integer, except
  when it is at least 25 away from the coordinate stored for the star
  generated just before it (from 0 for the first star of the pass, across
  layers): then the spread jitter is on top of it, and the stored coordinate
  lies between the integer and the integer plus 20.
\<close>

theorem calculate_star_range:
  assumes g: "\<forall>n. 0 \<le> g n \<and> g n < 1" and w: "0 \<le> width this" and h: "0 \<le> height this"
  shows
    "let S = concat (map (\<lambda>l. case layer_stars l of None \<Rightarrow> [] | Some ss \<Rightarrow> ss)
                      (layers (fst (calculate g fmul this k))))
     in \<forall>i<length S.
          (\<exists>v::int. - 10 \<le> v \<and> v \<le> width this \<and>
             (if 25 \<le> \<bar>real_of_int v - (if i = 0 then 0 else star_x (S ! (i - 1)))\<bar>
              then of_int v \<le> star_x (S ! i) \<and> star_x (S ! i) \<le> of_int v + 20
              else star_x (S ! i) = of_int v)) \<and>
          (\<exists>v::int. - 10 \<le> v \<and> v \<le> height this \<and>
             (if 25 \<le> \<bar>real_of_int v - (if i = 0 then 0 else star_y (S ! (i - 1)))\<bar>
              then of_int v \<le> star_y (S ! i) \<and> star_y (S ! i) \<le> of_int v + 20
              else star_y (S ! i) = of_int v))"
proof -
  define S where "S = stars_of (layers (fst (calculate g fmul this k)))"
  have sp: "spaced (width this) Null (map star_x S) \<and> spaced (height this) Null (map star_y S)"
    using calculate_layers_spaced [OF g w h, of "(Null, Null)" fmul "layers this" k]
    by (simp add: S_def calculate_def case_prod_beta)
  have "(\<exists>v::int. - 10 \<le> v \<and> v \<le> width this \<and>
             (if 25 \<le> \<bar>real_of_int v - (if i = 0 then 0 else star_x (S ! (i - 1)))\<bar>
              then of_int v \<le> star_x (S ! i) \<and> star_x (S ! i) \<le> of_int v + 20
              else star_x (S ! i) = of_int v)) \<and>
        (\<exists>v::int. - 10 \<le> v \<and> v \<le> height this \<and>
             (if 25 \<le> \<bar>real_of_int v - (if i = 0 then 0 else star_y (S ! (i - 1)))\<bar>
              then of_int v \<le> star_y (S ! i) \<and> star_y (S ! i) \<le> of_int v + 20
              else star_y (S ! i) = of_int v))" if i: "i < length S" for i
  proof -
    have x: "drawn_then_jittered (width this)
               (if i = 0 then Null else Num (map star_x S ! (i - 1))) (map star_x S ! i)"
      using spaced_nth [of "width this" Null "map star_x S" i] sp i by simp
    have y: "drawn_then_jittered (height this)
               (if i = 0 then Null else Num (map star_y S ! (i - 1))) (map star_y S ! i)"
      using spaced_nth [of "height this" Null "map star_y S" i] sp i by simp
    have here: "map star_x S ! i = star_x (S ! i)" "map star_y S ! i = star_y (S ! i)"
      using i by simp_all
    show ?thesis
    proof (cases i)
      case 0
      have "drawn_then_jittered (width this) Null (star_x (S ! i))"
           "drawn_then_jittered (height this) Null (star_y (S ! i))"
        using x y 0 here by simp_all
      thus ?thesis unfolding drawn_then_jittered_def using 0 by simp
    next
      case (Suc j)
      hence before: "map star_x S ! (i - 1) = star_x (S ! (i - 1))"
                    "map star_y S ! (i - 1) = star_y (S ! (i - 1))"
        using i by simp_all
      have "drawn_then_jittered (width this) (Num (star_x (S ! (i - 1)))) (star_x (S ! i))"
           "drawn_then_jittered (height this) (Num (star_y (S ! (i - 1)))) (star_y (S ! i))"
        using x y Suc here before by simp_all
      thus ?thesis unfolding drawn_then_jittered_def using Suc by simp
    qed
  qed
  thus ?thesis unfolding Let_def S_def stars_of_def by blast
qed

text \<open>
  On a canvas of 50 by 50, with every random number equal to 0.99, the one star
  is generated at \<open>(50, 50)\<close>; both integers are 25 or more away from the initial
  \<open>null\<close>, so the jitter 19.8 is added to each and the star is stored at
  \<open>(69.8, 69.8)\<close>.
\<close>

theorem calculate_star_range_witness:
  "map (\<lambda>s. (star_x s, star_y s))
     (concat (map (\<lambda>l. case layer_stars l of None \<Rightarrow> [] | Some ss \<Rightarrow> ss)
        (layers (fst (calculate (\<lambda>n. 99 / 100) (\<lambda>d a. d * a)
           (sample_field 50 50 [sample_layer None]) 0)))))
     = [(349 / 5, 349 / 5)]
   \<and> (\<exists>v::int. - 10 \<le> v \<and> v \<le> 50 \<and> 25 \<le> \<bar>real_of_int v - 0\<bar> \<and>
         real_of_int v \<le> 349 / 5 \<and> (349 / 5 :: real) \<le> real_of_int v + 20)"
proof -
  let ?p = "sample_field 50 50 [sample_layer None]"
  define S where "S = concat (map (\<lambda>l. case layer_stars l of None \<Rightarrow> [] | Some ss \<Rightarrow> ss)
              (layers (fst (calculate (\<lambda>n. 99 / 100) (\<lambda>d a. d * a) ?p 0))))"
  have g: "\<forall>n::nat. (0::real) \<le> 99 / 100 \<and> (99 / 100 :: real) < 1" by simp
  have w: "0 \<le> width ?p" by (simp add: sample_field_def)
  have h: "0 \<le> height ?p" by (simp add: sample_field_def)
  have ev: "map (\<lambda>s. (star_x s, star_y s)) S = [(349 / 5, 349 / 5)]"
    by (simp add: S_def calculate_def sample_field_def sample_layer_def density_or_default_def
        palette_of_def area_def calculate_stars.simps new_star_def random_def pick_def index_def
        Math_random_def spread_or_default_def Let_def)
  have "length (map (\<lambda>s. (star_x s, star_y s)) S) = 1" by (simp only: ev) simp
  hence len: "0 < length S" by simp
  have "map (\<lambda>s. (star_x s, star_y s)) S ! 0 = (349 / 5, 349 / 5)" by (simp only: ev) simp
  hence x0: "star_x (S ! 0) = 349 / 5" using len by simp
  have all: "\<forall>i<length S.
          (\<exists>v::int. - 10 \<le> v \<and> v \<le> width ?p \<and>
             (if 25 \<le> \<bar>real_of_int v - (if i = 0 then 0 else star_x (S ! (i - 1)))\<bar>
              then of_int v \<le> star_x (S ! i) \<and> star_x (S ! i) \<le> of_int v + 20
              else star_x (S ! i) = of_int v)) \<and>
          (\<exists>v::int. - 10 \<le> v \<and> v \<le> height ?p \<and>
             (if 25 \<le> \<bar>real_of_int v - (if i = 0 then 0 else star_y (S ! (i - 1)))\<bar>
              then of_int v \<le> star_y (S ! i) \<and> star_y (S ! i) \<le> of_int v + 20
              else star_y (S ! i) = of_int v))"
    using calculate_star_range [OF g w h, of "\<lambda>d a. d * a" 0] unfolding Let_def S_def .
  from all len have "\<exists>v::int. - 10 \<le> v \<and> v \<le> width ?p \<and>
             (if 25 \<le> \<bar>real_of_int v - (if (0::nat) = 0 then 0 else star_x (S ! (0 - 1)))\<bar>
              then of_int v \<le> star_x (S ! 0) \<and> star_x (S ! 0) \<le> of_int v + 20
              else star_x (S ! 0) = of_int v)"
    by blast
  then obtain v :: int where v: "- 10 \<le> v" "v \<le> 50"
      "if 25 \<le> \<bar>real_of_int v\<bar> then real_of_int v \<le> 349 / 5 \<and> 349 / 5 \<le> real_of_int v + 20
       else 349 / 5 = real_of_int v"
    unfolding x0 by (auto simp: sample_field_def)
  have "(349 / 5 :: real) \<noteq> real_of_int v"
  proof
    assume "(349 / 5 :: real) = real_of_int v"
    hence "real_of_int (5 * v) = real_of_int 349" by simp
    hence "5 * v = 349" by (simp only: of_int_eq_iff)
    thus False by presburger
  qed
  with v(3) have "25 \<le> \<bar>real_of_int v\<bar> \<and> real_of_int v \<le> 349 / 5 \<and> 349 / 5 \<le> real_of_int v + 20"
    by (simp split: if_splits)
  with v(1,2) have second: "\<exists>v::int. - 10 \<le> v \<and> v \<le> 50 \<and> 25 \<le> \<bar>real_of_int v - 0\<bar> \<and>
         real_of_int v \<le> 349 / 5 \<and> (349 / 5 :: real) \<le> real_of_int v + 20"
    by (intro exI [of _ v]) simp
  show ?thesis by (rule conjI [OF ev [unfolded S_def] second])
qed

subsection \<open>The random helper\<close>

text \<open>
  C8. With \<open>min \<le> max\<close> and random numbers in \<open>[0, 1)\<close>, \<open>_.random(min, max,
  previous, spread)\<close> first draws the integer \<open>v = floor (r * (max - min + 1)) +
  min\<close>, which lies in \<open>[min, max]\<close>. It returns \<open>v + j\<close>, with the jitter \<open>j\<close>
  twenty times a second random number and so in \<open>[0, 20)\<close>, exactly when
  \<open>previous\<close> is not undefined and \<open>|v - previous| \<ge> spread\<close> (\<open>null\<close> counting as
  0; the spread being 25 when none is given, and also when 0 is given);
  otherwise, and always when \<open>previous\<close> is undefined, it returns \<open>v\<close>. Nothing
  clamps the sum: for every such \<open>min\<close>, \<open>max\<close> and spread some previous value
  and some random numbers make the result exceed \<open>max\<close>.
\<close>

theorem random_sample:
  assumes g: "\<forall>n. 0 \<le> g n \<and> g n < 1" and le: "mn \<le> mx"
  shows
    "(let v = \<lfloor>g k * of_int (mx - mn + 1)\<rfloor> + mn;
          j = g (Suc k) * 20;
          threshold = (case spread of None \<Rightarrow> 25 | Some s \<Rightarrow> if s = 0 then 25 else s)
      in mn \<le> v \<and> v \<le> mx \<and> 0 \<le> j \<and> j < 20 \<and>
         random g mn mx prev spread k =
           (if (case prev of Undefined \<Rightarrow> False
                | Null \<Rightarrow> threshold \<le> \<bar>real_of_int v - 0\<bar>
                | Num p \<Rightarrow> threshold \<le> \<bar>real_of_int v - p\<bar>)
            then (of_int v + j, Suc (Suc k))
            else (of_int v, Suc k)))
     \<and> (\<exists>g' p. (\<forall>n. 0 \<le> g' n \<and> g' n < 1) \<and>
                of_int mx < fst (random g' mn mx (Num p) spread k))"
proof -
  let ?v = "\<lfloor>g k * of_int (mx - mn + 1)\<rfloor> + mn"
  have v: "mn \<le> ?v \<and> ?v \<le> mx" using drawn_integer_range g le by simp
  have j: "0 \<le> g (Suc k) * 20 \<and> g (Suc k) * 20 < 20" using g by simp
  have r: "random g mn mx prev spread k =
           (if (case prev of Undefined \<Rightarrow> False
                | Null \<Rightarrow> (case spread of None \<Rightarrow> 25 | Some s \<Rightarrow> if s = 0 then 25 else s)
                            \<le> \<bar>real_of_int ?v - 0\<bar>
                | Num p \<Rightarrow> (case spread of None \<Rightarrow> 25 | Some s \<Rightarrow> if s = 0 then 25 else s)
                            \<le> \<bar>real_of_int ?v - p\<bar>)
            then (of_int ?v + g (Suc k) * 20, Suc (Suc k))
            else (of_int ?v, Suc k))"
    by (cases prev) (simp_all add: random_unfold Let_def spread_or_default_def)
  show ?thesis using v j r random_can_exceed [OF le] unfolding Let_def by blast
qed

text \<open>
  With every random number equal to 0.99 the integer drawn from \<open>[0, 30]\<close> is 30.
  After a previous value 0 the jitter 19.8 is added; after a previous value 20
  it is not, nor when there is no previous value; with a spread of 5 it is
  added after 20; with a spread of 0 the threshold is 25, so that nothing is
  added after 20.
\<close>

theorem random_sample_witness:
  "random (\<lambda>n. 99 / 100) 0 30 (Num 0) None 0 = (249 / 5, 2)
   \<and> random (\<lambda>n. 99 / 100) 0 30 (Num 20) None 0 = (30, 1)
   \<and> random (\<lambda>n. 99 / 100) 0 30 Null None 0 = (249 / 5, 2)
   \<and> random (\<lambda>n. 99 / 100) 0 30 Undefined None 0 = (30, 1)
   \<and> random (\<lambda>n. 99 / 100) 0 30 (Num 20) (Some 5) 0 = (249 / 5, 2)
   \<and> random (\<lambda>n. 99 / 100) 0 30 (Num 20) (Some 0) 0 = (30, 1)"
proof -
  have g: "\<forall>n::nat. (0::real) \<le> 99 / 100 \<and> (99 / 100 :: real) < 1" by simp
  have le: "(0::int) \<le> 30" by simp
  have a: "random (\<lambda>n. 99 / 100) 0 30 (Num 0) None 0 = (249 / 5, 2)"
    using random_sample [where k = 0 and spread = None and prev = "Num 0", OF g le]
    by (simp add: Let_def)
  have b: "random (\<lambda>n. 99 / 100) 0 30 (Num 20) None 0 = (30, 1)"
    using random_sample [where k = 0 and spread = None and prev = "Num 20", OF g le]
    by (simp add: Let_def)
  have c: "random (\<lambda>n. 99 / 100) 0 30 Null None 0 = (249 / 5, 2)"
    using random_sample [where k = 0 and spread = None and prev = Null, OF g le]
    by (simp add: Let_def)
  have d: "random (\<lambda>n. 99 / 100) 0 30 Undefined None 0 = (30, 1)"
    using random_sample [where k = 0 and spread = None and prev = Undefined, OF g le]
    by (simp add: Let_def)
  have e: "random (\<lambda>n. 99 / 100) 0 30 (Num 20) (Some 5) 0 = (249 / 5, 2)"
    using random_sample [where k = 0 and spread = "Some 5" and prev = "Num 20", OF g le]
    by (simp add: Let_def)
  have f: "random (\<lambda>n. 99 / 100) 0 30 (Num 20) (Some 0) 0 = (30, 1)"
    using random_sample [where k = 0 and spread = "Some 0" and prev = "Num 20", OF g le]
    by (simp add: Let_def)
  show ?thesis using a b c d e f by simp
qed

subsection \<open>update\<close>

text \<open>
  C2. On an instance with \<open>width \<ge> 0\<close> whose layers all hold a star array, and
  with random numbers in \<open>[0, 1)\<close>, one call of \<open>update()\<close> raises nothing and
  takes every star of every layer to a star that is moved by exactly
  \<open>(layer.speed.x + star.speed.x, layer.speed.y + star.speed.y)\<close> when
  \<open>isInside(star.x, star.y)\<close> held before the call, and that has \<open>y = 1\<close> and
  \<open>0 \<le> x \<le> width\<close> otherwise.
\<close>

theorem update_moves_or_respawns:
  assumes g: "\<forall>n. 0 \<le> g n \<and> g n < 1" and w: "0 \<le> width this"
    and sts: "list_all (\<lambda>l. layer_stars l \<noteq> None) (layers this)"
  shows "snd (snd (update g this k)) = None \<and>
         list_all2
           (\<lambda>l l'. \<exists>ss ss'. layer_stars l = Some ss \<and> layer_stars l' = Some ss' \<and>
                     list_all2 (star_step this l) ss ss')
           (layers this) (layers (fst (update g this k)))"
  using update_layers_step [OF g w sts, of k]
  by (simp add: update_def case_prod_beta)

text \<open>A star at \<open>(5, 5)\<close> moves to \<open>(5, 5.51)\<close>; a star at \<open>(-3, 7)\<close> is outside
  and, with the random number 0.5 on a canvas 100 wide, reappears at \<open>(50, 1)\<close>.\<close>

theorem update_moves_or_respawns_witness:
  "snd (snd (update (\<lambda>n. 1 / 2)
      (sample_field 100 100 [sample_layer (Some [sample_star 5 5, sample_star (- 3) 7])]) 0)) = None \<and>
   list_all2
     (\<lambda>l l'. \<exists>ss ss'. layer_stars l = Some ss \<and> layer_stars l' = Some ss' \<and>
               list_all2
                 (star_step
                    (sample_field 100 100 [sample_layer (Some [sample_star 5 5, sample_star (- 3) 7])]) l)
                 ss ss')
     (layers (sample_field 100 100 [sample_layer (Some [sample_star 5 5, sample_star (- 3) 7])]))
     (layers (fst (update (\<lambda>n. 1 / 2)
        (sample_field 100 100 [sample_layer (Some [sample_star 5 5, sample_star (- 3) 7])]) 0)))
   \<and> map_option (map (\<lambda>s. (star_x s, star_y s)))
       (layer_stars (hd (layers (fst (update (\<lambda>n. 1 / 2)
          (sample_field 100 100 [sample_layer (Some [sample_star 5 5, sample_star (- 3) 7])]) 0)))))
       = Some [(5, 551 / 100), (50, 1)]"
proof -
  let ?p = "sample_field 100 100 [sample_layer (Some [sample_star 5 5, sample_star (- 3) 7])]"
  have g: "\<forall>n::nat. (0::real) \<le> 1 / 2 \<and> (1 / 2 :: real) < 1" by simp
  have w: "0 \<le> width ?p" by (simp add: sample_field_def)
  have sts: "list_all (\<lambda>l. layer_stars l \<noteq> None) (layers ?p)"
    by (simp add: sample_field_def sample_layer_def)
  have "map_option (map (\<lambda>s. (star_x s, star_y s)))
          (layer_stars (hd (layers (fst (update (\<lambda>n. 1 / 2) ?p 0))))) = Some [(5, 551 / 100), (50, 1)]"
    by (simp add: update_def update_star_def isInside_def fadeDistance_def random_def
          Math_random_def spread_or_default_def sample_field_def sample_layer_def
          sample_star_def Let_def)
  thus ?thesis using update_moves_or_respawns [OF g w sts, of 0] by simp
qed

text \<open>
  C10. \<open>update()\<close> changes nothing but the coordinates of stars: the layers
  after the call are as many as before and in the same order, each with its
  size, speed, density and colours unchanged and with as many stars as before,
  each star keeping its colour and its speed; the width, the height, the
  palette and the two flags of the instance are unchanged. This holds also when
  the call raises.
\<close>

theorem update_frame:
  "list_all2
     (\<lambda>l l'. layer_size l' = layer_size l \<and> layer_speed l' = layer_speed l \<and>
             layer_density l' = layer_density l \<and> layer_colors l' = layer_colors l \<and>
             rel_option
               (list_all2 (\<lambda>s s'. star_color s' = star_color s \<and> star_speed s' = star_speed s))
               (layer_stars l) (layer_stars l'))
     (layers this) (layers (fst (update g this k)))
   \<and> width (fst (update g this k)) = width this
   \<and> height (fst (update g this k)) = height this
   \<and> colors (fst (update g this k)) = colors this
   \<and> running (fst (update g this k)) = running this
   \<and> restarted (fst (update g this k)) = restarted this"
  using update_layers_frame [of "layers this" g this k]
  by (simp add: update_def case_prod_beta)

subsection \<open>start, pause and resize\<close>

text \<open>
  C9. \<open>start()\<close> after \<open>pause()\<close> does not run \<open>calculate()\<close>: it marks the
  paused instance as running and runs one \<open>update()\<close> on the stars it holds.
  The same is true of every later \<open>start()\<close>, since \<open>pause()\<close> sets
  \<open>restarted\<close>, leaves the layers as they are, and no method clears the flag
  again. \<open>resize()\<close> is \<open>calculate()\<close> on
  the instance with the freshly read width and height, and its result does not
  depend on the stars held before.
\<close>

theorem pause_start_resize:
  "start g fmul (pause this) k = update g ((pause this)\<lparr>running := True\<rparr>) k
   \<and> (restarted this \<longrightarrow> start g fmul this k = update g (this\<lparr>running := True\<rparr>) k)
   \<and> restarted (pause this)
   \<and> layers (pause this) = layers this
   \<and> restarted (fst (start g fmul this k)) = restarted this
   \<and> restarted (fst (update g this k)) = restarted this
   \<and> restarted (fst (loop g this k)) = restarted this
   \<and> restarted (fst (calculate g fmul this k)) = restarted this
   \<and> restarted (fst (resize g fmul css this k)) = restarted this
   \<and> resize g fmul css this k =
       calculate g fmul (this\<lparr>width := css (container this) ''width'',
                          height := css (container this) ''height''\<rparr>) k
   \<and> resize g fmul css (this\<lparr>layers := map (\<lambda>l. l\<lparr>layer_stars := old l\<rparr>) (layers this)\<rparr>) k =
       resize g fmul css this k"
proof -
  have a: "start g fmul (pause this) k = update g ((pause this)\<lparr>running := True\<rparr>) k"
    by (simp add: start_def pause_def loop_def)
  have b: "restarted this \<longrightarrow> start g fmul this k = update g (this\<lparr>running := True\<rparr>) k"
    by (simp add: start_def loop_def)
  have c: "restarted (pause this)" by (simp add: pause_def)
  have d: "restarted (fst (start g fmul this k)) = restarted this"
    by (cases "restarted this")
       (simp_all add: start_def loop_def Let_def case_prod_beta update_flags calculate_flags)
  have e: "restarted (fst (loop g this k)) = restarted this"
    by (simp add: loop_def update_flags)
  have f: "restarted (fst (resize g fmul css this k)) = restarted this"
    by (simp add: resize_def calculate_flags)
  have h: "resize g fmul css (this\<lparr>layers := map (\<lambda>l. l\<lparr>layer_stars := old l\<rparr>) (layers this)\<rparr>) k =
       resize g fmul css this k"
    by (simp add: resize_def calculate_def
          calculate_layers_forgets
            [where this = "this\<lparr>width := css (container this) ''width'',
                                 height := css (container this) ''height''\<rparr>"
               and ls = "layers this" and old = old])
  have i: "layers (pause this) = layers this" by (simp add: pause_def)
  show ?thesis using a b c d e f h i by (simp add: update_flags calculate_flags resize_def)
qed

theorem pause_start_resize_witness:
  "restarted (pause (sample_field 100 100 [sample_layer (Some [sample_star 5 5])])) \<and>
   start (\<lambda>n. 1 / 2) (\<lambda>d a. d * a)
     (pause (sample_field 100 100 [sample_layer (Some [sample_star 5 5])])) 0 =
   update (\<lambda>n. 1 / 2)
     ((pause (sample_field 100 100 [sample_layer (Some [sample_star 5 5])]))\<lparr>running := True\<rparr>) 0"
proof -
  let ?p = "pause (sample_field 100 100 [sample_layer (Some [sample_star 5 5])])"
  have r: "restarted ?p" by (simp add: pause_def)
  have "restarted ?p \<longrightarrow>
        start (\<lambda>n. 1 / 2) (\<lambda>d a. d * a) ?p 0 =
        update (\<lambda>n. 1 / 2) (?p\<lparr>running := True\<rparr>) 0"
    by (rule conjunct1 [OF conjunct2 [OF pause_start_resize]])
  with r show ?thesis by simp
qed

subsection \<open>The constructor\<close>

text \<open>
  C3. A selector that matches nothing makes the body of the constructor write
  its message and return \<open>false\<close>, and yet \<open>new Parallax(...)\<close> evaluates to the
  object under construction, with \<open>container\<close> undefined and an empty
  \<open>errors.colors\<close>: the expression does not yield \<open>false\<close>. Likewise for the
  colour \<open>red\<close> on the sample page, where the object holds the container and
  the rejected colour.
\<close>

theorem new_Parallax_without_container:
  "Parallax_constructor (\<lambda>s. []) sample_css ''#missing'' None None False =
     ([''No container found with the selector '' @ quote ''#missing'' @ ''.''],
      Inr (Unfinished \<lparr>unfinished_container = NoElement, unfinished_errors_colors = [],
                        unfinished_defaultColors = None\<rparr>, JSFalse))
   \<and> new_Parallax (\<lambda>s. []) sample_css ''#missing'' None None False =
       Inr (JSObject (Unfinished \<lparr>unfinished_container = NoElement, unfinished_errors_colors = [],
                        unfinished_defaultColors = None\<rparr>))
   \<and> new_Parallax (\<lambda>s. []) sample_css ''#missing'' None None False \<noteq> Inr JSFalse
   \<and> new_Parallax sample_page sample_css ''#sky'' (Some (Token ''red'')) None False =
       Inr (JSObject (Unfinished
         \<lparr>unfinished_container = Element (Elem 0), unfinished_errors_colors = [''red''],
          unfinished_defaultColors = Some [''#ffffff'', ''#6420e5'', ''#79e865'', ''#e81e6b'']\<rparr>))"
  by (simp add: new_Parallax_def construct_def Parallax_constructor_def get_def sample_page_def
      isHex_def)

text \<open>
  C6. When the container is found and the colours given hold a token that is
  not a hex colour, the body of the constructor checks every token, returns
  \<open>false\<close> before anything else is set up, and leaves in \<open>errors.colors\<close>
  exactly the invalid tokens, in the order given; the console shows one line
  for each of them from \<open>_.isHex\<close>, then the heading, then one line for each of
  them again.
\<close>

theorem invalid_colors_reported:
  assumes cont: "get doc containerSelector \<noteq> NoElement"
    and bad: "filter (\<lambda>c. \<not> hex_pattern c) (case given of Tokens a \<Rightarrow> a | Token t \<Rightarrow> [t]) \<noteq> []"
  shows "Parallax_constructor doc css containerSelector (Some given) layers_given mergeLayers =
           (map (\<lambda>c. ''The hex color '' @ quote c @ '' is not valid.'')
              (filter (\<lambda>c. \<not> hex_pattern c) (case given of Tokens a \<Rightarrow> a | Token t \<Rightarrow> [t]))
            @ [''The following colors are incorrect :'']
            @ map (\<lambda>e. ''- '' @ e)
              (filter (\<lambda>c. \<not> hex_pattern c) (case given of Tokens a \<Rightarrow> a | Token t \<Rightarrow> [t])),
            Inr (Unfinished
                  \<lparr>unfinished_container = get doc containerSelector,
                   unfinished_errors_colors =
                     filter (\<lambda>c. \<not> hex_pattern c) (case given of Tokens a \<Rightarrow> a | Token t \<Rightarrow> [t]),
                   unfinished_defaultColors = Some [''#ffffff'', ''#6420e5'', ''#79e865'', ''#e81e6b'']\<rparr>,
                 JSFalse))"
  using cont bad
  by (cases given) (simp_all add: Parallax_constructor_def check_colors_filter Let_def)

text \<open>The colours \<open>["#ff0000", "notacolor"]\<close> leave exactly \<open>["notacolor"]\<close>.\<close>

theorem invalid_colors_reported_witness:
  "Parallax_constructor sample_page sample_css ''#sky''
     (Some (Tokens [''#ff0000'', ''notacolor''])) None False =
     ([''The hex color '' @ quote ''notacolor'' @ '' is not valid.'',
       ''The following colors are incorrect :'',
       ''- notacolor''],
      Inr (Unfinished
            \<lparr>unfinished_container = Element (Elem 0),
             unfinished_errors_colors = [''notacolor''],
             unfinished_defaultColors = Some [''#ffffff'', ''#6420e5'', ''#79e865'', ''#e81e6b'']\<rparr>,
           JSFalse))"
proof -
  have cont: "get sample_page ''#sky'' \<noteq> NoElement" by (simp add: get_def sample_page_def)
  have bad: "filter (\<lambda>c. \<not> hex_pattern c)
               (case Tokens [''#ff0000'', ''notacolor''] of Tokens a \<Rightarrow> a | Token t \<Rightarrow> [t]) \<noteq> []"
    by (simp add: hex_digit_def)
  show ?thesis
    using invalid_colors_reported [OF cont bad, of sample_css None False]
    by (simp add: hex_digit_def get_def sample_page_def)
qed

text \<open>
  C7. When the constructor completes, the layers of the instance are: the three
  default layers (sizes 3, 2, 1, vertical speeds 0.5, 0.3, 0.2, horizontal
  speed 0, each with the palette of the instance as its colours) when no layers
  are given; the three default layers followed by the given ones, in order,
  when layers are given and \<open>mergeLayers\<close> is true; the given layers alone when
  \<open>mergeLayers\<close> is false. The palette is the colours given, or the four
  default colours.
\<close>

theorem layer_resolution:
  assumes ok: "Parallax_constructor doc css containerSelector colors_given layers_given mergeLayers
                 = (out, Inr (Finished this, ret))"
  shows "layers this =
           (case layers_given of
              None \<Rightarrow>
                [\<lparr>layer_size = 3, layer_speed = \<lparr>speed_x = 0, speed_y = 0.5\<rparr>,
                  layer_density = None, layer_colors = Some (colors this), layer_stars = None\<rparr>,
                 \<lparr>layer_size = 2, layer_speed = \<lparr>speed_x = 0, speed_y = 0.3\<rparr>,
                  layer_density = None, layer_colors = Some (colors this), layer_stars = None\<rparr>,
                 \<lparr>layer_size = 1, layer_speed = \<lparr>speed_x = 0, speed_y = 0.2\<rparr>,
                  layer_density = None, layer_colors = Some (colors this), layer_stars = None\<rparr>]
            | Some given \<Rightarrow>
                if mergeLayers
                then [\<lparr>layer_size = 3, layer_speed = \<lparr>speed_x = 0, speed_y = 0.5\<rparr>,
                        layer_density = None, layer_colors = Some (colors this), layer_stars = None\<rparr>,
                      \<lparr>layer_size = 2, layer_speed = \<lparr>speed_x = 0, speed_y = 0.3\<rparr>,
                        layer_density = None, layer_colors = Some (colors this), layer_stars = None\<rparr>,
                      \<lparr>layer_size = 1, layer_speed = \<lparr>speed_x = 0, speed_y = 0.2\<rparr>,
                        layer_density = None, layer_colors = Some (colors this), layer_stars = None\<rparr>]
                     @ given
                else given)
         \<and> colors this =
           (case colors_given of None \<Rightarrow> [''#ffffff'', ''#6420e5'', ''#79e865'', ''#e81e6b'']
            | Some (Tokens a) \<Rightarrow> a | Some (Token t) \<Rightarrow> [t])"
  using ok
  by (auto simp: Parallax_constructor_def Let_def case_prod_beta
           split: if_splits node.splits option.splits colors_arg.splits)

text \<open>On the sample page, one layer given with \<open>mergeLayers\<close> true comes fourth.\<close>

theorem layer_resolution_witness:
  "snd (Parallax_constructor sample_page sample_css ''#sky'' None (Some [sample_layer None]) True)
     = Inr (Finished (sample_instance (defaultLayers (sample_instance []) @ [sample_layer None])),
            JSUndefined)
   \<and> layers (sample_instance (defaultLayers (sample_instance []) @ [sample_layer None])) =
       [\<lparr>layer_size = 3, layer_speed = \<lparr>speed_x = 0, speed_y = 0.5\<rparr>, layer_density = None,
         layer_colors = Some [''#ffffff'', ''#6420e5'', ''#79e865'', ''#e81e6b''], layer_stars = None\<rparr>,
        \<lparr>layer_size = 2, layer_speed = \<lparr>speed_x = 0, speed_y = 0.3\<rparr>, layer_density = None,
         layer_colors = Some [''#ffffff'', ''#6420e5'', ''#79e865'', ''#e81e6b''], layer_stars = None\<rparr>,
        \<lparr>layer_size = 1, layer_speed = \<lparr>speed_x = 0, speed_y = 0.2\<rparr>, layer_density = None,
         layer_colors = Some [''#ffffff'', ''#6420e5'', ''#79e865'', ''#e81e6b''], layer_stars = None\<rparr>,
        sample_layer None]"
proof -
  let ?p = "sample_instance (defaultLayers (sample_instance []) @ [sample_layer None])"
  have ok: "Parallax_constructor sample_page sample_css ''#sky'' None (Some [sample_layer None]) True
              = ([], Inr (Finished ?p, JSUndefined))"
    by (simp add: Parallax_constructor_def get_def sample_page_def sample_css_def sample_instance_def Let_def)
  have cs: "colors ?p = [''#ffffff'', ''#6420e5'', ''#79e865'', ''#e81e6b'']"
    by (simp add: sample_instance_def)
  show ?thesis using layer_resolution [OF ok] by (simp add: ok cs)
qed

end
